theory Spec2Isabelle
  imports Main
begin

section \<open>The parsed page\<close>

text \<open>
  \<^verbatim>\<open>multithreading.py\<close> never looks at markup text: every page goes through
  \<^verbatim>\<open>BeautifulSoup(response.content, 'html.parser')\<close> first, and the script works on the
  resulting tree. The tree is the input of the model. A node is a tag (name, attribute
  dictionary, children in document order) or a string of text; the soup object itself is
  the tag named \<^verbatim>\<open>[document]\<close>. The attribute dictionary is an association list read
  with \<open>map_of\<close>; values are the strings of the markup.
\<close>

datatype node =
  Tag string "(string \<times> string) list" "node list"
| NavigableString string

fun name :: "node \<Rightarrow> string" where
  "name (Tag n as cs) = n"
| "name (NavigableString s) = []"

fun attrs :: "node \<Rightarrow> (string \<times> string) list" where
  "attrs (Tag n as cs) = as"
| "attrs (NavigableString s) = []"

fun contents :: "node \<Rightarrow> node list" where
  "contents (Tag n as cs) = cs"
| "contents (NavigableString s) = []"

fun is_tag :: "node \<Rightarrow> bool" where
  "is_tag (Tag n as cs) = True"
| "is_tag (NavigableString s) = False"

text \<open>\<^verbatim>\<open>tag.descendants\<close>: every node below the tag, in document order (pre-order).\<close>

fun descendants :: "node \<Rightarrow> node list" where
  "descendants (Tag n as cs) = concat (map (\<lambda>c. c # descendants c) cs)"
| "descendants (NavigableString s) = []"

text \<open>\<^verbatim>\<open>tag.get_text()\<close>: the strings below the tag, concatenated in document order.\<close>

fun get_text :: "node \<Rightarrow> string" where
  "get_text (Tag n as cs) = concat (map get_text cs)"
| "get_text (NavigableString s) = s"

subsection \<open>Strings\<close>

text \<open>
  Whitespace as \<^verbatim>\<open>str.strip()\<close> and the parser's class splitting see it, on the
  ASCII range: tab, line feed, vertical tab, form feed, carriage return, the four
  separators \<^verbatim>\<open>0x1c\<close> to \<^verbatim>\<open>0x1f\<close>, and the space.
\<close>

definition isspace :: "char \<Rightarrow> bool" where
  "isspace c = (c \<in> set [CHR 0x09, CHR 0x0A, CHR 0x0B, CHR 0x0C, CHR 0x0D,
                          CHR 0x1C, CHR 0x1D, CHR 0x1E, CHR 0x1F, CHR 0x20])"

definition strip :: "string \<Rightarrow> string" where
  "strip s = rev (dropWhile isspace (rev (dropWhile isspace s)))"

text \<open>\<^verbatim>\<open>p in s\<close> on strings: \<open>p\<close> occurs in \<open>s\<close> as a contiguous block.\<close>

fun starts_with :: "string \<Rightarrow> string \<Rightarrow> bool" where
  "starts_with [] s = True"
| "starts_with (p # ps) [] = False"
| "starts_with (p # ps) (c # cs) = (p = c \<and> starts_with ps cs)"

fun str_in :: "string \<Rightarrow> string \<Rightarrow> bool" where
  "str_in p [] = (p = [])"
| "str_in p (c # cs) = (starts_with p (c # cs) \<or> str_in p cs)"

text \<open>
  The parser stores a \<^verbatim>\<open>class\<close> attribute as the list of its whitespace-separated
  tokens (the maximal runs of non-whitespace characters).
\<close>

function class_tokens :: "string \<Rightarrow> string list" where
  "class_tokens [] = []"
| "class_tokens (c # cs) =
     (if isspace c then class_tokens cs
      else (c # takeWhile (\<lambda>x. \<not> isspace x) cs)
             # class_tokens (dropWhile (\<lambda>x. \<not> isspace x) cs))"
  by pat_completeness auto
termination
  by (relation "measure length") (auto simp: length_dropWhile_le less_Suc_eq_le)

subsection \<open>Searching the tree\<close>

text \<open>
  An attribute filter is a test on the attribute's value, \<open>None\<close> when the tag has no such
  attribute. Three shapes occur in the script:
  \<^item> \<^verbatim>\<open>attrs={'class': v}\<close>: \<^verbatim>\<open>class\<close> is multi-valued, so the tag matches when \<open>v\<close> is
    one of its class tokens (for a \<open>v\<close> without whitespace, as here, the library's second
    chance, \<open>v\<close> equal to the tokens joined by single spaces, adds nothing);
  \<^item> \<^verbatim>\<open>attrs={'data-testid': v}\<close>: the value is exactly \<open>v\<close>;
  \<^item> \<^verbatim>\<open>href=lambda href: href and 'releaseinfo' in href\<close>: the value is present, non-empty
    and contains the marker.
\<close>

type_synonym attr_filter = "string \<times> (string option \<Rightarrow> bool)"

definition has_class :: "string \<Rightarrow> attr_filter" where
  "has_class v = (''class'', \<lambda>a. case a of None \<Rightarrow> False | Some s \<Rightarrow> v \<in> set (class_tokens s))"

definition has_value :: "string \<Rightarrow> string \<Rightarrow> attr_filter" where
  "has_value k v = (k, \<lambda>a. a = Some v)"

definition href_releaseinfo :: attr_filter where
  "href_releaseinfo =
     (''href'', \<lambda>href. case href of None \<Rightarrow> False | Some h \<Rightarrow> h \<noteq> [] \<and> str_in ''releaseinfo'' h)"

definition matches :: "string \<Rightarrow> attr_filter list \<Rightarrow> node \<Rightarrow> bool" where
  "matches n fs t = (is_tag t \<and> name t = n \<and> list_all (\<lambda>(k, p). p (map_of (attrs t) k)) fs)"

text \<open>
  \<^verbatim>\<open>tag.find(name, ...)\<close> is the first matching descendant or \<^verbatim>\<open>None\<close>;
  \<^verbatim>\<open>tag.find_all(name)\<close> is every matching descendant in document order, and with
  \<^verbatim>\<open>recursive=False\<close> every matching child.
\<close>

definition soup_find :: "string \<Rightarrow> attr_filter list \<Rightarrow> node \<Rightarrow> node option" where
  "soup_find n fs t = List.find (matches n fs) (descendants t)"

definition find_all :: "string \<Rightarrow> bool \<Rightarrow> node \<Rightarrow> node list" where
  "find_all n recursive t = filter (matches n []) (if recursive then descendants t else contents t)"

section \<open>The script\<close>

text \<open>
  The exceptions the script can end with: \<open>RequestException\<close> is the transport failure
  of \<^verbatim>\<open>requests.get\<close>; \<open>AttributeError\<close> is a method call on \<^verbatim>\<open>None\<close>; \<open>TypeError\<close> is
  a subscript on \<^verbatim>\<open>None\<close>; \<open>KeyError\<close> is \<^verbatim>\<open>tag['href']\<close> on a tag without that
  attribute; \<open>ValueError\<close> is a thread pool asked for no worker.
\<close>

datatype error = RequestException | AttributeError | TypeError | KeyError | ValueError

text \<open>
  The four locals \<^verbatim>\<open>title\<close>, \<^verbatim>\<open>date\<close>, \<^verbatim>\<open>rating\<close>, \<^verbatim>\<open>plot_text\<close> of
  \<^verbatim>\<open>extract_movie_details\<close>, \<open>None\<close> for Python's \<^verbatim>\<open>None\<close>. On the paths that leave
  the function before \<^verbatim>\<open>rating\<close> and \<^verbatim>\<open>plot_text\<close> are assigned, the record holds
  \<open>None\<close> for them too.
\<close>

record movie =
  title :: "string option"
  date :: "string option"
  rating :: "string option"
  plot_text :: "string option"

definition no_fields :: movie where
  "no_fields = \<lparr>title = None, date = None, rating = None, plot_text = None\<rparr>"

text \<open>
  What the script changes outside itself: the rows appended to \<^verbatim>\<open>movies.csv\<close> (each row
  the list of its cells; the file is taken to open for appending) and the addresses it has
  asked \<^verbatim>\<open>requests.get\<close> for. The pause of \<^verbatim>\<open>time.sleep\<close> and the \<^verbatim>\<open>print\<close> of a saved
  row change neither and are left out.
\<close>

record world =
  movies_csv :: "string list list"
  requested :: "string list"

text \<open>Truth value of a local that is \<^verbatim>\<open>None\<close> or a string: a non-empty string.\<close>

definition truthy :: "string option \<Rightarrow> bool" where
  "truthy v = (case v of None \<Rightarrow> False | Some s \<Rightarrow> s \<noteq> [])"

text \<open>Lines 54 to 56: the title is the text of the first \<^verbatim>\<open>span\<close> of the first \<^verbatim>\<open>h1\<close>.\<close>

definition find_title :: "node \<Rightarrow> error + string option" where
  "find_title target_div =
     (case soup_find ''h1'' [] target_div of
        None \<Rightarrow> Inr None
      | Some title_tag \<Rightarrow>
          (case soup_find ''span'' [] title_tag of
             None \<Rightarrow> Inl AttributeError
           | Some span \<Rightarrow> Inr (Some (get_text span))))"

text \<open>Lines 72 to 77: the row is appended when \<^verbatim>\<open>all([title, date, rating, plot_text])\<close>.\<close>

definition save_row :: "movie \<Rightarrow> world \<Rightarrow> world" where
  "save_row m w =
     (if list_all truthy [title m, date m, rating m, plot_text m]
      then w\<lparr>movies_csv := movies_csv w @ [map the [title m, date m, rating m, plot_text m]]\<rparr>
      else w)"

text \<open>
  Lines 40 to 77, the work of \<^verbatim>\<open>extract_movie_details\<close> on the parsed page. The result is
  the exception the function ends with, or its locals as a \<open>movie\<close>, beside the world it
  leaves. \<^verbatim>\<open>BeautifulSoup(...)\<close> is never \<^verbatim>\<open>None\<close>, so the test of line 40 always passes.
\<close>

definition movie_details :: "node \<Rightarrow> world \<Rightarrow> (error + movie) \<times> world" where
  "movie_details movie_soup w =
     (case soup_find ''section'' [has_class ''ipc-page-section''] movie_soup of
        None \<Rightarrow> (Inr no_fields, w)
      | Some page_section \<Rightarrow>
          (let divs = find_all ''div'' False page_section in
           if length divs > 1 then
             (let target_div = divs ! 1 in
              case find_title target_div of
                Inl e \<Rightarrow> (Inl e, w)
              | Inr t \<Rightarrow>
                  (let d = map_option (strip \<circ> get_text)
                             (soup_find ''a'' [href_releaseinfo] target_div);
                       r = map_option get_text
                             (soup_find ''div''
                                [has_value ''data-testid'' ''hero-rating-bar__aggregate-rating__score'']
                                movie_soup);
                       p = map_option (strip \<circ> get_text)
                             (soup_find ''span'' [has_value ''data-testid'' ''plot-xs_to_m''] movie_soup);
                       m = \<lparr>title = t, date = d, rating = r, plot_text = p\<rparr>
                   in (Inr m, save_row m w)))
           else (Inr no_fields, w)))"

text \<open>
  \<^verbatim>\<open>extract_movie_details(movie_link)\<close>. The page source is a parameter: \<open>requests_get\<close>
  gives, for an address, the transport failure or the parsed page.
\<close>

definition extract_movie_details ::
    "(string \<Rightarrow> error + node) \<Rightarrow> string \<Rightarrow> world \<Rightarrow> (error + movie) \<times> world" where
  "extract_movie_details requests_get movie_link w =
     (let w' = w\<lparr>requested := requested w @ [movie_link]\<rparr> in
      case requests_get movie_link of
        Inl e \<Rightarrow> (Inl e, w')
      | Inr movie_soup \<Rightarrow> movie_details movie_soup w')"

definition MAX_THREADS :: int where
  "MAX_THREADS = 100"

text \<open>
  Line 88, the list comprehension: the items are visited in order and the first one without
  an \<^verbatim>\<open>a\<close>, or whose first \<^verbatim>\<open>a\<close> has no \<^verbatim>\<open>href\<close>, ends it with the exception.
\<close>

fun links_of :: "node list \<Rightarrow> error + string list" where
  "links_of [] = Inr []"
| "links_of (movie # rest) =
     (case soup_find ''a'' [] movie of
        None \<Rightarrow> Inl TypeError
      | Some a \<Rightarrow>
          (case map_of (attrs a) ''href'' of
             None \<Rightarrow> Inl KeyError
           | Some href \<Rightarrow>
               (case links_of rest of
                  Inl e \<Rightarrow> Inl e
                | Inr ls \<Rightarrow> Inr ((''https://imdb.com'' @ href) # ls))))"

text \<open>Lines 84 to 88: the value of \<^verbatim>\<open>movie_links\<close>, or the exception raised on the way.\<close>

definition movie_links :: "node \<Rightarrow> error + string list" where
  "movie_links soup =
     (case soup_find ''div'' [has_value ''data-testid'' ''chart-layout-main-column''] soup of
        None \<Rightarrow> Inl AttributeError
      | Some column \<Rightarrow>
          (case soup_find ''ul'' [] column of
             None \<Rightarrow> Inl AttributeError
           | Some movies_table \<Rightarrow> links_of (find_all ''li'' True movies_table)))"

text \<open>
  \<^verbatim>\<open>executor.map(extract_movie_details, movie_links)\<close> inside the \<^verbatim>\<open>with\<close> block: one task per
  address, and the block ends when all have run. The iterator \<^verbatim>\<open>map\<close> returns is dropped,
  so what a task returns or raises is never read. The tasks share only the world; the model
  runs them in the order of the list, so the order of the rows and of the requests is that
  of one schedule among those the pool allows.
\<close>

definition executor_map :: "(string \<Rightarrow> world \<Rightarrow> 'a \<times> world) \<Rightarrow> string list \<Rightarrow> world \<Rightarrow> world" where
  "executor_map task links w = foldl (\<lambda>w' link. snd (task link w')) w links"

text \<open>
  \<^verbatim>\<open>extract_movies(soup)\<close>. \<^verbatim>\<open>ThreadPoolExecutor(max_workers=threads)\<close> raises
  \<^verbatim>\<open>ValueError\<close> when \<^verbatim>\<open>threads\<close> is not positive.
\<close>

definition extract_movies ::
    "(string \<Rightarrow> error + node) \<Rightarrow> node \<Rightarrow> world \<Rightarrow> (error + unit) \<times> world" where
  "extract_movies requests_get soup w =
     (case movie_links soup of
        Inl e \<Rightarrow> (Inl e, w)
      | Inr links \<Rightarrow>
          (let threads = min MAX_THREADS (int (length links)) in
           if threads \<le> 0 then (Inl ValueError, w)
           else (Inr (), executor_map (extract_movie_details requests_get) links w)))"

text \<open>
  The target of an item's link as line 88 reads it: the \<^verbatim>\<open>href\<close> of the item's first
  \<^verbatim>\<open>a\<close>, \<open>None\<close> when the item has no \<^verbatim>\<open>a\<close> or its first \<^verbatim>\<open>a\<close> has no \<^verbatim>\<open>href\<close>.
\<close>

definition link_target :: "node \<Rightarrow> string option" where
  "link_target movie = (case soup_find ''a'' [] movie of None \<Rightarrow> None | Some a \<Rightarrow> map_of (attrs a) ''href'')"

section \<open>Sample pages\<close>

text \<open>
  Small pages of the shapes the script expects, and page sources serving them, for
  running the definitions: a detail page is a section of class \<^verbatim>\<open>ipc-page-section\<close>
  with two \<^verbatim>\<open>div\<close> children, the second holding the given nodes; a seed page is the
  chart column holding a list of the given items.
\<close>

definition empty_world :: world where
  "empty_world = \<lparr>movies_csv = [], requested = []\<rparr>"

definition detail_page :: "node list \<Rightarrow> node" where
  "detail_page block =
     Tag ''[document]'' []
       [Tag ''section'' [(''class'', ''ipc-page-section'')] [Tag ''div'' [] [], Tag ''div'' [] block]]"

definition release_link :: node where
  "release_link = Tag ''a'' [(''href'', ''/title/tt1/releaseinfo'')] [NavigableString '' 2021 '']"

definition rating_score :: node where
  "rating_score =
     Tag ''div'' [(''data-testid'', ''hero-rating-bar__aggregate-rating__score'')]
       [NavigableString ''8.0/10'']"

definition plot :: node where
  "plot = Tag ''span'' [(''data-testid'', ''plot-xs_to_m'')] [NavigableString ''Sand. '']"

definition full_page :: node where
  "full_page =
     detail_page [Tag ''h1'' [] [Tag ''span'' [] [NavigableString ''Dune'']],
                  release_link, rating_score, plot]"

definition blank_title_page :: node where
  "blank_title_page = detail_page [Tag ''h1'' [] [Tag ''span'' [] []], release_link, rating_score, plot]"

definition bare_heading_page :: node where
  "bare_heading_page =
     detail_page [Tag ''h1'' [] [NavigableString ''Dune''], release_link, rating_score, plot]"

definition no_section_page :: node where
  "no_section_page = Tag ''[document]'' [] [Tag ''div'' [] [rating_score, plot]]"

definition one_div_page :: node where
  "one_div_page =
     Tag ''[document]'' []
       [Tag ''section'' [(''class'', ''ipc-page-section'')]
          [Tag ''div'' [] [Tag ''h1'' [] [Tag ''span'' [] [NavigableString ''Dune'']],
                           release_link, rating_score, plot]]]"

definition serves :: "node \<Rightarrow> string \<Rightarrow> error + node" where
  "serves page link = Inr page"

definition offline :: "string \<Rightarrow> error + node" where
  "offline link = Inl RequestException"

definition second_down :: "string \<Rightarrow> error + node" where
  "second_down link =
     (if link = ''https://imdb.com/title/tt2/'' then Inl RequestException else Inr full_page)"

definition seed_page :: "node list \<Rightarrow> node" where
  "seed_page items =
     Tag ''[document]'' []
       [Tag ''div'' [(''data-testid'', ''chart-layout-main-column'')] [Tag ''ul'' [] items]]"

definition item :: "string \<Rightarrow> node" where
  "item href = Tag ''li'' [] [Tag ''a'' [(''href'', href)] [NavigableString ''film'']]"

definition no_list_page :: node where
  "no_list_page =
     Tag ''[document]'' [] [Tag ''div'' [(''data-testid'', ''chart-layout-main-column'')] []]"

definition unlinked_item :: node where
  "unlinked_item = Tag ''li'' [] [NavigableString ''film'']"

definition anchor_first_item :: node where
  "anchor_first_item =
     Tag ''li'' []
       [Tag ''a'' [(''id'', ''top'')] [], Tag ''a'' [(''href'', ''/title/tt2/'')] [NavigableString ''film'']]"

definition three_items :: "node list" where
  "three_items = [item ''/title/tt1/'', item ''/title/tt2/'', item ''/title/tt3/'']"

section \<open>Unfolding and basic facts\<close>

lemmas page_defs =
  detail_page_def release_link_def rating_score_def plot_def full_page_def blank_title_page_def
  bare_heading_page_def no_section_page_def one_div_page_def serves_def offline_def
  second_down_def seed_page_def item_def three_items_def empty_world_def no_list_page_def
  unlinked_item_def anchor_first_item_def

lemmas script_defs =
  extract_movie_details_def movie_details_def find_title_def save_row_def truthy_def
  no_fields_def movie_links_def extract_movies_def executor_map_def MAX_THREADS_def
  link_target_def

lemmas soup_defs =
  soup_find_def find_all_def matches_def has_class_def has_value_def href_releaseinfo_def
  strip_def isspace_def

lemma save_row_no_fields: "save_row no_fields w = w"
  by (simp add: save_row_def no_fields_def truthy_def)

lemma movie_details_Inr: "movie_details soup w = (Inr m, w') \<Longrightarrow> w' = save_row m w"
  by (auto simp: movie_details_def Let_def save_row_no_fields split: option.splits sum.splits if_splits)

lemma movie_details_fst: "fst (movie_details soup w) = fst (movie_details soup w')"
  by (auto simp: movie_details_def Let_def split: option.splits sum.splits if_splits)

lemma movie_details_csv:
  "movies_csv w1 = movies_csv w2 \<Longrightarrow>
   movies_csv (snd (movie_details soup w1)) = movies_csv (snd (movie_details soup w2))"
  by (auto simp: movie_details_def Let_def save_row_def split: option.splits sum.splits if_splits)

lemma extract_movie_details_csv:
  "movies_csv w1 = movies_csv w2 \<Longrightarrow>
   movies_csv (snd (extract_movie_details g l w1)) = movies_csv (snd (extract_movie_details g l w2))"
  by (auto simp: extract_movie_details_def Let_def intro: movie_details_csv split: sum.splits)

lemma executor_map_csv:
  "movies_csv w1 = movies_csv w2 \<Longrightarrow>
   movies_csv (executor_map (extract_movie_details g) ls w1) =
   movies_csv (executor_map (extract_movie_details g) ls w2)"
proof (induction ls arbitrary: w1 w2)
  case Nil
  then show ?case by (simp add: executor_map_def)
next
  case (Cons l ls)
  have "movies_csv (snd (extract_movie_details g l w1)) = movies_csv (snd (extract_movie_details g l w2))"
    using Cons.prems by (rule extract_movie_details_csv)
  from Cons.IH [OF this] show ?case by (simp add: executor_map_def)
qed

lemma executor_map_append:
  "executor_map f (xs @ ys) w = executor_map f ys (executor_map f xs w)"
  by (simp add: executor_map_def)

lemma executor_map_Cons:
  "executor_map f (x # xs) w = executor_map f xs (snd (f x w))"
  by (simp add: executor_map_def)

lemma links_of_all:
  "\<forall>movie \<in> set items. link_target movie \<noteq> None \<Longrightarrow>
   links_of items = Inr (map (\<lambda>movie. ''https://imdb.com'' @ the (link_target movie)) items)"
  by (induction items) (auto simp: link_target_def split: option.splits)

lemma links_of_missing:
  "movie \<in> set items \<Longrightarrow> soup_find ''a'' [] movie = None \<Longrightarrow>
   links_of items = Inl TypeError \<or> links_of items = Inl KeyError"
  by (induction items) (auto split: option.splits sum.splits)

section \<open>The gate before the file\<close>

text \<open>
  Claim C1, as amended. The claim has a row written exactly when no field is \<^verbatim>\<open>None\<close>.
  The test of line 75 is \<^verbatim>\<open>all([title, date, rating, plot_text])\<close>, the truth value of
  each field, and an empty string is false. What holds: whenever \<^verbatim>\<open>extract_movie_details\<close>
  returns, it has appended the row of the four fields if every field is a non-empty
  string, and has left the file as it was otherwise; no exception comes from the gate.
\<close>

theorem row_saved_iff_all_truthy:
  assumes "extract_movie_details requests_get movie_link w = (Inr m, w')"
  shows "movies_csv w' =
           (if truthy (title m) \<and> truthy (date m) \<and> truthy (rating m) \<and> truthy (plot_text m)
            then movies_csv w @ [[the (title m), the (date m), the (rating m), the (plot_text m)]]
            else movies_csv w)"
proof -
  obtain soup where "movie_details soup (w\<lparr>requested := requested w @ [movie_link]\<rparr>) = (Inr m, w')"
    using assms by (auto simp: extract_movie_details_def Let_def split: sum.splits)
  then have "w' = save_row m (w\<lparr>requested := requested w @ [movie_link]\<rparr>)"
    by (rule movie_details_Inr)
  then show ?thesis by (simp add: save_row_def)
qed

text \<open>On the page with all four markers the row is appended to the empty file.\<close>

theorem row_saved_iff_all_truthy_witness:
  "extract_movie_details (serves full_page) ''https://imdb.com/title/tt1/'' empty_world =
     (Inr \<lparr>title = Some ''Dune'', date = Some ''2021'', rating = Some ''8.0/10'',
           plot_text = Some ''Sand.''\<rparr>,
      \<lparr>movies_csv = [[''Dune'', ''2021'', ''8.0/10'', ''Sand.'']],
        requested = [''https://imdb.com/title/tt1/'']\<rparr>)
   \<and> movies_csv \<lparr>movies_csv = [[''Dune'', ''2021'', ''8.0/10'', ''Sand.'']],
                  requested = [''https://imdb.com/title/tt1/'']\<rparr> =
       movies_csv empty_world @ [[''Dune'', ''2021'', ''8.0/10'', ''Sand.'']]"
proof -
  have run: "extract_movie_details (serves full_page) ''https://imdb.com/title/tt1/'' empty_world =
     (Inr \<lparr>title = Some ''Dune'', date = Some ''2021'', rating = Some ''8.0/10'',
           plot_text = Some ''Sand.''\<rparr>,
      \<lparr>movies_csv = [[''Dune'', ''2021'', ''8.0/10'', ''Sand.'']],
        requested = [''https://imdb.com/title/tt1/'']\<rparr>)"
    by (simp add: page_defs script_defs soup_defs)
  from row_saved_iff_all_truthy [OF run] run show ?thesis
    by (simp add: truthy_def)
qed

text \<open>
  Claim C1 as stated fails where the heading's \<^verbatim>\<open>span\<close> is empty: the title is the empty
  string, so all four fields are strings and none is \<^verbatim>\<open>None\<close>, yet the file stays empty.
\<close>

theorem nonnull_fields_not_saved_counterexample:
  "extract_movie_details (serves blank_title_page) ''https://imdb.com/title/tt1/'' empty_world =
     (Inr \<lparr>title = Some [], date = Some ''2021'', rating = Some ''8.0/10'',
           plot_text = Some ''Sand.''\<rparr>,
      \<lparr>movies_csv = [], requested = [''https://imdb.com/title/tt1/'']\<rparr>)"
  by (simp add: page_defs script_defs soup_defs)

section \<open>The title chain\<close>

text \<open>
  Claim C2 says that a node missing anywhere along section, second child, heading, span
  gives a \<^verbatim>\<open>None\<close> title and that no exception leaves the function. Line 55 guards the
  heading, as lines 60, 65 and 69 guard the other three lookups, but line 56 calls
  \<^verbatim>\<open>get_text\<close> on the result of \<^verbatim>\<open>find('span')\<close> unguarded. On a page whose \<^verbatim>\<open>h1\<close>
  holds its text directly, with no \<^verbatim>\<open>span\<close>, the function ends with \<^verbatim>\<open>AttributeError\<close>.
\<close>

theorem title_without_span_raises:
  "extract_movie_details (serves bare_heading_page) ''https://imdb.com/title/tt1/'' empty_world =
     (Inl AttributeError, \<lparr>movies_csv = [], requested = [''https://imdb.com/title/tt1/'']\<rparr>)"
  by (simp add: page_defs script_defs soup_defs)

section \<open>Transport failures\<close>

text \<open>
  Claim C3, as amended. The claim has a failed fetch turn into a record of four \<^verbatim>\<open>None\<close>s
  that the gate then drops. The function has no handler around \<^verbatim>\<open>requests.get\<close>: the
  task ends with the transport exception before any field is looked up, so there is no
  record and the gate is never reached. What holds: the task ends with that exception
  and writes no row; the rows of a run are those of the same run without the failing
  address, whatever comes before and after it; and \<^verbatim>\<open>extract_movies\<close> itself returns
  normally, since the outcomes of the tasks are never read.
\<close>

theorem transport_failure_stays_in_task:
  assumes "requests_get link = Inl e"
  shows "extract_movie_details requests_get link w = (Inl e, w\<lparr>requested := requested w @ [link]\<rparr>)
       \<and> movies_csv (executor_map (extract_movie_details requests_get) (before @ link # after) w) =
         movies_csv (executor_map (extract_movie_details requests_get) (before @ after) w)
       \<and> (movie_links soup = Inr (before @ link # after) \<longrightarrow>
            fst (extract_movies requests_get soup w) = Inr ())"
proof -
  have task: "\<And>w. extract_movie_details requests_get link w =
                  (Inl e, w\<lparr>requested := requested w @ [link]\<rparr>)"
    using assms by (simp add: extract_movie_details_def)
  have "movies_csv (executor_map (extract_movie_details requests_get) (before @ link # after) w) =
        movies_csv (executor_map (extract_movie_details requests_get) (before @ after) w)"
    unfolding executor_map_append executor_map_Cons task
    by (rule executor_map_csv) simp
  moreover have "movie_links soup = Inr (before @ link # after) \<longrightarrow>
            fst (extract_movies requests_get soup w) = Inr ()"
    by (simp add: extract_movies_def MAX_THREADS_def min_def)
  ultimately show ?thesis using task by simp
qed

text \<open>
  Three addresses, the second unreachable: its task ends with the exception, the other two
  rows are written, and the run returns normally.
\<close>

theorem transport_failure_stays_in_task_witness:
  "second_down ''https://imdb.com/title/tt2/'' = Inl RequestException
   \<and> movie_links (seed_page three_items) =
       Inr [''https://imdb.com/title/tt1/'', ''https://imdb.com/title/tt2/'',
            ''https://imdb.com/title/tt3/'']
   \<and> fst (extract_movie_details second_down ''https://imdb.com/title/tt2/'' empty_world) =
       Inl RequestException
   \<and> movies_csv (executor_map (extract_movie_details second_down)
        [''https://imdb.com/title/tt1/'', ''https://imdb.com/title/tt2/'',
         ''https://imdb.com/title/tt3/'']
        empty_world) =
      [[''Dune'', ''2021'', ''8.0/10'', ''Sand.''], [''Dune'', ''2021'', ''8.0/10'', ''Sand.'']]
   \<and> fst (extract_movies second_down (seed_page three_items) empty_world) = Inr ()"
proof -
  have down: "second_down ''https://imdb.com/title/tt2/'' = Inl RequestException"
    by (simp add: second_down_def)
  have links: "movie_links (seed_page three_items) =
       Inr ([''https://imdb.com/title/tt1/''] @ ''https://imdb.com/title/tt2/''
              # [''https://imdb.com/title/tt3/''])"
    by (simp add: page_defs script_defs soup_defs)
  have rest: "movies_csv (executor_map (extract_movie_details second_down)
        ([''https://imdb.com/title/tt1/''] @ [''https://imdb.com/title/tt3/'']) empty_world) =
      [[''Dune'', ''2021'', ''8.0/10'', ''Sand.''], [''Dune'', ''2021'', ''8.0/10'', ''Sand.'']]"
    by (simp add: page_defs script_defs soup_defs)
  from transport_failure_stays_in_task [where requests_get = second_down
      and link = "''https://imdb.com/title/tt2/''" and e = RequestException and w = empty_world
      and before = "[''https://imdb.com/title/tt1/'']" and after = "[''https://imdb.com/title/tt3/'']"
      and soup = "seed_page three_items"] down links rest
  show ?thesis by simp
qed

text \<open>
  Claim C3 as stated fails at any unreachable address: what the task ends with is the
  exception, not a record of four \<^verbatim>\<open>None\<close>s.
\<close>

theorem transport_failure_counterexample:
  "extract_movie_details offline ''https://imdb.com/title/tt1/'' empty_world =
     (Inl RequestException, \<lparr>movies_csv = [], requested = [''https://imdb.com/title/tt1/'']\<rparr>)
   \<and> fst (extract_movie_details offline ''https://imdb.com/title/tt1/'' empty_world) \<noteq>
       Inr no_fields"
  by (simp add: page_defs script_defs)

section \<open>Collecting the links\<close>

text \<open>
  Claim C5. When the seed page has no \<^verbatim>\<open>div\<close> marked \<^verbatim>\<open>chart-layout-main-column\<close>, or that
  \<^verbatim>\<open>div\<close> holds no \<^verbatim>\<open>ul\<close>, \<^verbatim>\<open>extract_movies\<close> ends with an exception (a method call on
  \<^verbatim>\<open>None\<close>) and the world is untouched: no address has been requested, no row written.
\<close>

theorem missing_listing_fails_fast:
  assumes "soup_find ''div'' [has_value ''data-testid'' ''chart-layout-main-column''] soup = None
         \<or> (\<exists>column. soup_find ''div'' [has_value ''data-testid'' ''chart-layout-main-column''] soup =
                        Some column
               \<and> soup_find ''ul'' [] column = None)"
  shows "extract_movies requests_get soup w = (Inl AttributeError, w)"
  using assms by (auto simp: extract_movies_def movie_links_def)

text \<open>Both cases: a page without the column, and a column without a list.\<close>

theorem missing_listing_fails_fast_witness:
  "extract_movies (serves full_page) no_section_page empty_world = (Inl AttributeError, empty_world)
   \<and> extract_movies (serves full_page) no_list_page empty_world = (Inl AttributeError, empty_world)"
proof -
  have absent:
    "soup_find ''div'' [has_value ''data-testid'' ''chart-layout-main-column''] no_section_page = None"
    by (simp add: page_defs soup_defs)
  have no_list:
    "soup_find ''div'' [has_value ''data-testid'' ''chart-layout-main-column''] no_list_page =
       Some (Tag ''div'' [(''data-testid'', ''chart-layout-main-column'')] [])
     \<and> soup_find ''ul'' [] (Tag ''div'' [(''data-testid'', ''chart-layout-main-column'')] []) = None"
    by (simp add: page_defs soup_defs)
  show ?thesis
    using missing_listing_fails_fast [of no_section_page "serves full_page" empty_world]
      missing_listing_fails_fast [of no_list_page "serves full_page" empty_world] absent no_list
    by blast
qed

text \<open>
  Claim C6, as amended. The claim asks only that every list item contain a link. Line 88
  reads \<^verbatim>\<open>['href']\<close> of the item's first \<^verbatim>\<open>a\<close>, whether or not that \<^verbatim>\<open>a\<close> has one.
  What holds: when the column and its list are present and the first \<^verbatim>\<open>a\<close> of every
  \<^verbatim>\<open>li\<close> below the list has an \<^verbatim>\<open>href\<close>, \<^verbatim>\<open>movie_links\<close> is the list of
  \<^verbatim>\<open>'https://imdb.com'\<close> followed by that \<^verbatim>\<open>href\<close>, one per \<^verbatim>\<open>li\<close>, in document order.
\<close>

theorem movie_links_in_document_order:
  assumes "soup_find ''div'' [has_value ''data-testid'' ''chart-layout-main-column''] soup = Some column"
    and "soup_find ''ul'' [] column = Some movies_table"
    and "\<forall>movie \<in> set (find_all ''li'' True movies_table). link_target movie \<noteq> None"
  shows "movie_links soup =
           Inr (map (\<lambda>movie. ''https://imdb.com'' @ the (link_target movie))
                    (find_all ''li'' True movies_table))"
  using assms by (simp add: movie_links_def links_of_all)

text \<open>A list of three linked items gives the three addresses, in order.\<close>

theorem movie_links_in_document_order_witness:
  "movie_links (seed_page three_items) =
     Inr [''https://imdb.com/title/tt1/'', ''https://imdb.com/title/tt2/'',
          ''https://imdb.com/title/tt3/'']"
proof -
  have column:
    "soup_find ''div'' [has_value ''data-testid'' ''chart-layout-main-column''] (seed_page three_items) =
      Some (Tag ''div'' [(''data-testid'', ''chart-layout-main-column'')] [Tag ''ul'' [] three_items])"
    by (simp add: seed_page_def soup_defs)
  have table:
    "soup_find ''ul'' []
       (Tag ''div'' [(''data-testid'', ''chart-layout-main-column'')] [Tag ''ul'' [] three_items]) =
      Some (Tag ''ul'' [] three_items)"
    by (simp add: soup_defs)
  have items: "find_all ''li'' True (Tag ''ul'' [] three_items) = three_items"
    by (simp add: page_defs soup_defs)
  have linked:
    "\<forall>movie \<in> set (find_all ''li'' True (Tag ''ul'' [] three_items)). link_target movie \<noteq> None"
    unfolding items by (simp add: page_defs soup_defs link_target_def)
  from movie_links_in_document_order [OF column table linked] show ?thesis
    unfolding items by (simp add: page_defs soup_defs link_target_def)
qed

text \<open>
  Claim C6 as stated fails on an item whose first \<^verbatim>\<open>a\<close> is a bare anchor and whose second
  \<^verbatim>\<open>a\<close> carries the target: the item contains a link, and the result is \<^verbatim>\<open>KeyError\<close>.
\<close>

theorem link_without_href_counterexample:
  "movie_links (seed_page [item ''/title/tt1/'', anchor_first_item]) = Inl KeyError"
  by (simp add: page_defs script_defs soup_defs)

text \<open>
  Claim C9. When the column and its list are present and the list has no item,
  \<^verbatim>\<open>movie_links\<close> is empty, \<^verbatim>\<open>threads\<close> is \<^verbatim>\<open>min(100, 0) = 0\<close>, and \<^verbatim>\<open>extract_movies\<close> ends
  with the pool's \<^verbatim>\<open>ValueError\<close>, the world untouched.
\<close>

theorem empty_listing_raises_ValueError:
  assumes "soup_find ''div'' [has_value ''data-testid'' ''chart-layout-main-column''] soup = Some column"
    and "soup_find ''ul'' [] column = Some movies_table"
    and "find_all ''li'' True movies_table = []"
  shows "movie_links soup = Inr [] \<and> extract_movies requests_get soup w = (Inl ValueError, w)"
  using assms by (simp add: extract_movies_def movie_links_def MAX_THREADS_def)

theorem empty_listing_raises_ValueError_witness:
  "movie_links (seed_page []) = Inr []
   \<and> extract_movies (serves full_page) (seed_page []) empty_world = (Inl ValueError, empty_world)"
proof -
  have column:
    "soup_find ''div'' [has_value ''data-testid'' ''chart-layout-main-column''] (seed_page []) =
      Some (Tag ''div'' [(''data-testid'', ''chart-layout-main-column'')] [Tag ''ul'' [] []])"
    by (simp add: seed_page_def soup_defs)
  have table:
    "soup_find ''ul'' [] (Tag ''div'' [(''data-testid'', ''chart-layout-main-column'')] [Tag ''ul'' [] []]) =
      Some (Tag ''ul'' [] [])"
    by (simp add: soup_defs)
  have items: "find_all ''li'' True (Tag ''ul'' [] []) = []"
    by (simp add: soup_defs)
  from empty_listing_raises_ValueError [OF column table items] show ?thesis .
qed

text \<open>
  Claim C10. When some \<^verbatim>\<open>li\<close> below the list holds no \<^verbatim>\<open>a\<close>, the comprehension of line 88
  ends with an exception (the subscript on \<^verbatim>\<open>None\<close>, unless an earlier item's \<^verbatim>\<open>a\<close> without
  \<^verbatim>\<open>href\<close> came first) and so does \<^verbatim>\<open>extract_movies\<close>: no address is returned or requested.
\<close>

theorem item_without_link_aborts:
  assumes "soup_find ''div'' [has_value ''data-testid'' ''chart-layout-main-column''] soup = Some column"
    and "soup_find ''ul'' [] column = Some movies_table"
    and "movie \<in> set (find_all ''li'' True movies_table)"
    and "soup_find ''a'' [] movie = None"
  shows "extract_movies requests_get soup w = (Inl TypeError, w)
       \<or> extract_movies requests_get soup w = (Inl KeyError, w)"
  using assms links_of_missing [of movie "find_all ''li'' True movies_table"]
  by (auto simp: extract_movies_def movie_links_def)

text \<open>The middle one of three items has no link; the two linked ones do not save the run.\<close>

theorem item_without_link_aborts_witness:
  "extract_movies (serves full_page)
     (seed_page [item ''/title/tt1/'', unlinked_item, item ''/title/tt3/''])
     empty_world = (Inl TypeError, empty_world)"
proof -
  let ?items = "[item ''/title/tt1/'', unlinked_item, item ''/title/tt3/'']"
  have column:
    "soup_find ''div'' [has_value ''data-testid'' ''chart-layout-main-column''] (seed_page ?items) =
      Some (Tag ''div'' [(''data-testid'', ''chart-layout-main-column'')] [Tag ''ul'' [] ?items])"
    by (simp add: seed_page_def soup_defs)
  have table:
    "soup_find ''ul'' [] (Tag ''div'' [(''data-testid'', ''chart-layout-main-column'')] [Tag ''ul'' [] ?items]) =
      Some (Tag ''ul'' [] ?items)"
    by (simp add: soup_defs)
  have member: "unlinked_item \<in> set (find_all ''li'' True (Tag ''ul'' [] ?items))"
    by (simp add: page_defs soup_defs)
  have bare: "soup_find ''a'' [] unlinked_item = None"
    by (simp add: page_defs soup_defs)
  have "extract_movies (serves full_page) (seed_page ?items) empty_world \<noteq> (Inl KeyError, empty_world)"
    by (simp add: page_defs script_defs soup_defs)
  with item_without_link_aborts [OF column table member bare, of "serves full_page" empty_world]
  show ?thesis by blast
qed

section \<open>Extraction\<close>



text \<open>
  Claim C8. What \<^verbatim>\<open>extract_movie_details\<close> extracts, the fields or the exception, is
  decided by the parsed page alone: two runs that receive the same page end alike, whatever
  the address, the page source, the rows already in the file and the requests already made.
  In particular a second run after the first, which may have appended a row, ends as the
  first did.
\<close>

theorem extraction_depends_on_markup_only:
  assumes "source_a link_a = Inr movie_soup" and "source_b link_b = Inr movie_soup"
  shows "fst (extract_movie_details source_a link_a w) =
         fst (extract_movie_details source_b link_b w')"
  using assms
  by (simp add: extract_movie_details_def Let_def
      movie_details_fst [of movie_soup "w\<lparr>requested := requested w @ [link_a]\<rparr>"
                            "w'\<lparr>requested := requested w' @ [link_b]\<rparr>"])

text \<open>
  The same page from two sources under two addresses, the second run starting from the
  world the first one left.
\<close>

theorem extraction_depends_on_markup_only_witness:
  "fst (extract_movie_details (serves full_page) ''https://imdb.com/title/tt1/'' empty_world) =
   fst (extract_movie_details second_down ''https://imdb.com/title/tt3/''
          (snd (extract_movie_details (serves full_page) ''https://imdb.com/title/tt1/'' empty_world)))"
proof -
  have one: "serves full_page ''https://imdb.com/title/tt1/'' = Inr full_page"
    by (simp add: serves_def)
  have two: "second_down ''https://imdb.com/title/tt3/'' = Inr full_page"
    by (simp add: second_down_def)
  from extraction_depends_on_markup_only [where source_a = "serves full_page"
      and link_a = "''https://imdb.com/title/tt1/''" and source_b = second_down
      and link_b = "''https://imdb.com/title/tt3/''" and movie_soup = full_page] one two
  show ?thesis by blast
qed

end
